theory Spec2Isabelle
  imports Main
begin

section \<open>Strings and request headers\<close>

text \<open>
  A request is seen through \<open>request.headers.get(name)\<close> only: it yields the header's
  value, or \<open>null\<close> when the header is absent. Header values are byte strings (one
  character per byte), so \<open>string\<close> models them exactly. Names are the lower-case
  ones the source passes to \<open>get\<close>.
\<close>

record NextRequest =
  headers :: "string \<rightharpoonup> string"

text \<open>
  A failed property access on \<open>undefined\<close> is the only exception the rate limiter's own
  code could raise.
\<close>

datatype js_error = TypeError

text \<open>\<open>s.split(sep)\<close> for a one-character separator: the segments between separators.\<close>

fun split :: "char \<Rightarrow> string \<Rightarrow> string list" where
  "split sep [] = [[]]"
| "split sep (c # cs) =
     (if c = sep then [] # split sep cs
      else (case split sep cs of
              [] \<Rightarrow> [[c]]
            | x # xs \<Rightarrow> (c # x) # xs))"

text \<open>
  \<open>s.trim()\<close> removes white space and line terminators from both ends. Among the
  characters a header value can hold these are tab, line feed, vertical tab, form
  feed, carriage return, space and the no-break space.
\<close>

definition is_ws :: "char \<Rightarrow> bool" where
  "is_ws c \<longleftrightarrow>
     c \<in> set [CHR 0x09, CHR 0x0A, CHR 0x0B, CHR 0x0C, CHR 0x0D, CHR 0x20, CHR 0xA0]"

definition trim :: "string \<Rightarrow> string" where
  "trim s = rev (dropWhile is_ws (rev (dropWhile is_ws s)))"

text \<open>\<open>s.startsWith(p)\<close> and \<open>s.substring(n)\<close>.\<close>

definition startsWith :: "string \<Rightarrow> string \<Rightarrow> bool" where
  "startsWith s p \<longleftrightarrow> take (length p) s = p"

definition substring :: "string \<Rightarrow> nat \<Rightarrow> string" where
  "substring s n = drop n s"

text \<open>
  \<open>a || b\<close> on an optional string: \<open>null\<close>, \<open>undefined\<close> and the empty string are
  falsy, so \<open>b\<close> is taken for each of them.
\<close>

definition or_else :: "string option \<Rightarrow> string \<Rightarrow> string" where
  "or_else a b = (case a of None \<Rightarrow> b | Some s \<Rightarrow> if s = [] then b else s)"

section \<open>The rate limiter (src/lib/rateLimit.ts)\<close>

record entry =
  count :: int
  resetAt :: int

text \<open>
  \<open>rateLimitStore\<close> is an object literal \<open>{}\<close> used as a dictionary. Its own
  properties are the entries the limiter has stored; the model's state is that map.
\<close>

type_synonym RateLimitStore = "string \<rightharpoonup> entry"

text \<open>
  An object literal inherits from \<open>Object.prototype\<close>, so \<open>rateLimitStore[key]\<close> for a
  key that is not an own property is the inherited member when \<open>key\<close> names one, and
  \<open>undefined\<close> otherwise. The inherited members are functions (and, for \<open>__proto__\<close>,
  the prototype object itself): truthy values without a \<open>resetAt\<close> and without a
  numeric \<open>count\<close>.
\<close>

definition Object_prototype_names :: "string list" where
  "Object_prototype_names =
     [''constructor'', ''__defineGetter__'', ''__defineSetter__'', ''hasOwnProperty'',
      ''__lookupGetter__'', ''__lookupSetter__'', ''isPrototypeOf'',
      ''propertyIsEnumerable'', ''toString'', ''valueOf'', ''__proto__'',
      ''toLocaleString'']"

datatype slot = Undefined | Own entry | Inherited

definition lookup :: "RateLimitStore \<Rightarrow> string \<Rightarrow> slot" where
  "lookup store key =
     (case store key of
        Some e \<Rightarrow> Own e
      | None \<Rightarrow> if key \<in> set Object_prototype_names then Inherited else Undefined)"

record RateLimitConfig =
  maxRequests :: int
  windowSeconds :: int
  message :: "string option"

record decision =
  allowed :: bool
  remaining :: int
  resetAt' :: "int option"
  error :: "string option"

text \<open>
  \<open>getClientIdentifier\<close>. Each \<open>if (header)\<close> is a truthiness test: a header that is
  absent and a header whose value is empty both fail it. \<open>split(',')[0]\<close> is
  \<open>undefined\<close> on an empty array, and \<open>.trim()\<close> on \<open>undefined\<close> raises.
\<close>

definition getClientIdentifier :: "NextRequest \<Rightarrow> js_error + string" where
  "getClientIdentifier request =
     (let forwardedFor = headers request ''x-forwarded-for'';
          realIp = headers request ''x-real-ip''
      in if forwardedFor \<noteq> None \<and> forwardedFor \<noteq> Some [] then
           (case split CHR '','' (the forwardedFor) of
              [] \<Rightarrow> Inl TypeError
            | first # _ \<Rightarrow> Inr (trim first))
         else if realIp \<noteq> None \<and> realIp \<noteq> Some [] then Inr (the realIp)
         else Inr (or_else (headers request ''user-agent'') ''unknown''))"

text \<open>
  \<open>checkRateLimit\<close>, with \<open>Date.now()\<close> as the parameter \<open>now\<close> (milliseconds) and the
  store passed in and returned. The three cases of the lookup are:
  \<^item> \<open>undefined\<close>: \<open>!rateLimitStore[identifier]\<close> holds, a fresh entry is stored;
  \<^item> an own entry: fresh entry if \<open>resetAt < now\<close>, else the count is incremented;
  \<^item> an inherited member: it is truthy and its \<open>resetAt\<close> is \<open>undefined\<close>, so
    \<open>undefined < now\<close> is false and the increment path runs; \<open>count++\<close> on it
    yields \<open>NaN\<close> (written onto the inherited object, not into the store),
    \<open>NaN <= maxRequests\<close> is false, and the refusal is returned with \<open>resetAt\<close>
    undefined.
  The returned object's \<open>resetAt\<close> is the field \<open>resetAt'\<close> of \<open>decision\<close>, with
  \<open>None\<close> for \<open>undefined\<close>.
\<close>

definition checkRateLimit ::
  "NextRequest \<Rightarrow> RateLimitConfig \<Rightarrow> int \<Rightarrow> RateLimitStore
     \<Rightarrow> js_error + (decision \<times> RateLimitStore)" where
  "checkRateLimit request config now store =
     (case getClientIdentifier request of
        Inl e \<Rightarrow> Inl e
      | Inr identifier \<Rightarrow>
          (let windowMs = windowSeconds config * 1000;
               fresh = Inr (\<lparr>allowed = True, remaining = maxRequests config - 1,
                              resetAt' = Some (now + windowMs), error = None\<rparr>,
                            store(identifier \<mapsto> \<lparr>count = 1, resetAt = now + windowMs\<rparr>));
               refusal = or_else (message config) ''Too many requests. Please try again later.''
           in case lookup store identifier of
                Undefined \<Rightarrow> fresh
              | Own e \<Rightarrow>
                  if resetAt e < now then fresh
                  else
                    (let e' = e\<lparr>count := count e + 1\<rparr>;
                         store' = store(identifier \<mapsto> e');
                         remaining = max 0 (maxRequests config - count e');
                         allowed = (count e' \<le> maxRequests config)
                     in if \<not> allowed then
                          Inr (\<lparr>allowed = False, remaining = 0,
                                 resetAt' = Some (resetAt e'), error = Some refusal\<rparr>, store')
                        else
                          Inr (\<lparr>allowed = True, remaining = remaining,
                                 resetAt' = Some (resetAt e'), error = None\<rparr>, store'))
              | Inherited \<Rightarrow>
                  Inr (\<lparr>allowed = False, remaining = 0, resetAt' = None,
                         error = Some refusal\<rparr>, store)))"

text \<open>
  The clean-up that \<open>setInterval\<close> runs every five minutes, at time \<open>now\<close>: every
  stored entry whose window has ended is deleted.
\<close>

definition sweep :: "int \<Rightarrow> RateLimitStore \<Rightarrow> RateLimitStore" where
  "sweep now store =
     (\<lambda>key. case store key of
              None \<Rightarrow> None
            | Some e \<Rightarrow> if resetAt e < now then None else Some e)"

text \<open>The default value of the \<open>config\<close> parameter, and the table \<open>RATE_LIMITS\<close>.\<close>

definition default_config :: RateLimitConfig where
  "default_config = \<lparr>maxRequests = 10, windowSeconds = 60, message = None\<rparr>"

definition login :: RateLimitConfig where
  "login = \<lparr>maxRequests = 5, windowSeconds = 300,
     message = Some ''Too many login attempts. Please try again in 5 minutes.''\<rparr>"

definition contact :: RateLimitConfig where
  "contact = \<lparr>maxRequests = 3, windowSeconds = 3600,
     message = Some ''Too many contact form submissions. Please try again later.''\<rparr>"

definition upload :: RateLimitConfig where
  "upload = \<lparr>maxRequests = 10, windowSeconds = 3600,
     message = Some ''Too many upload requests. Please try again later.''\<rparr>"

definition api :: RateLimitConfig where
  "api = \<lparr>maxRequests = 100, windowSeconds = 60,
     message = Some ''Too many requests. Please slow down.''\<rparr>"

definition publicRead :: RateLimitConfig where
  "publicRead = \<lparr>maxRequests = 200, windowSeconds = 60,
     message = Some ''Too many requests. Please slow down.''\<rparr>"

text \<open>
  A client's successive calls, one per timestamp, each on the store the previous call
  left: the decisions in order, and the final store.
\<close>

fun requests ::
  "NextRequest \<Rightarrow> RateLimitConfig \<Rightarrow> int list \<Rightarrow> RateLimitStore
     \<Rightarrow> js_error + (decision list \<times> RateLimitStore)" where
  "requests request config [] store = Inr ([], store)"
| "requests request config (now # later) store =
     (case checkRateLimit request config now store of
        Inl e \<Rightarrow> Inl e
      | Inr (d, store') \<Rightarrow>
          (case requests request config later store' of
             Inl e \<Rightarrow> Inl e
           | Inr (ds, store'') \<Rightarrow> Inr (d # ds, store'')))"

section \<open>The token service (src/lib/auth.ts)\<close>

text \<open>
  The signing key: \<open>process.env.JWT_SECRET || 'your-secret-key-change-in-production'\<close>,
  with the environment variable as a parameter.
\<close>

definition secret :: "string option \<Rightarrow> string" where
  "secret JWT_SECRET = or_else JWT_SECRET ''your-secret-key-change-in-production''"

text \<open>
  \<open>verifyToken\<close>. The library call \<open>jwtVerify(token, secret)\<close> is a parameter: it
  either raises (\<open>Inl\<close>) or returns the payload. The \<open>catch\<close> takes every raised
  error. An asynchronous function's result is \<open>Inl\<close> for a rejected promise and
  \<open>Inr\<close> for a fulfilled one; the tokens handed to \<open>jwtVerify\<close> are recorded, in
  order, in a trace that is passed in and returned.
\<close>

definition verifyToken ::
  "(string \<Rightarrow> string \<Rightarrow> 'e + 'p) \<Rightarrow> string option \<Rightarrow> string \<Rightarrow> string list
     \<Rightarrow> ('e + 'p option) \<times> string list" where
  "verifyToken jwtVerify JWT_SECRET token trace =
     (case jwtVerify token (secret JWT_SECRET) of
        Inr payload \<Rightarrow> (Inr (Some payload), trace @ [token])
      | Inl e \<Rightarrow> (Inr None, trace @ [token]))"

text \<open>\<open>getTokenFromRequest\<close>; \<open>!authHeader\<close> holds for an absent and for an empty header.\<close>

definition getTokenFromRequest ::
  "(string \<Rightarrow> string \<Rightarrow> 'e + 'p) \<Rightarrow> string option \<Rightarrow> NextRequest \<Rightarrow> string list
     \<Rightarrow> ('e + 'p option) \<times> string list" where
  "getTokenFromRequest jwtVerify JWT_SECRET request trace =
     (let authHeader = headers request ''authorization''
      in if authHeader = None \<or> authHeader = Some []
            \<or> \<not> startsWith (the authHeader) ''Bearer '' then
           (Inr None, trace)
         else
           (let token = substring (the authHeader) 7
            in verifyToken jwtVerify JWT_SECRET token trace))"

record 'p auth_result =
  authorized :: bool
  user :: "'p option"
  error' :: "string option"

text \<open>\<open>requireAuth\<close>; a payload is an object, so \<open>!user\<close> holds for \<open>null\<close> only.\<close>

definition requireAuth ::
  "(string \<Rightarrow> string \<Rightarrow> 'e + 'p) \<Rightarrow> string option \<Rightarrow> NextRequest \<Rightarrow> string list
     \<Rightarrow> ('e + 'p auth_result) \<times> string list" where
  "requireAuth jwtVerify JWT_SECRET request trace =
     (case getTokenFromRequest jwtVerify JWT_SECRET request trace of
        (Inl e, trace') \<Rightarrow> (Inl e, trace')
      | (Inr None, trace') \<Rightarrow>
          (Inr \<lparr>authorized = False, user = None,
                error' = Some ''Unauthorized - Invalid or missing token''\<rparr>, trace')
      | (Inr (Some u), trace') \<Rightarrow>
          (Inr \<lparr>authorized = True, user = Some u, error' = None\<rparr>, trace'))"

subsection \<open>The signing library\<close>

text \<open>
  What \<open>generateToken\<close> receives (\<open>TokenPayload\<close> without the registered claims), and
  \<open>TokenPayload\<close> with the two registered claims the token service sets.
\<close>

record claim =
  userId :: string
  username :: string
  email :: string

record TokenPayload = claim +
  iat :: "int option"
  exp :: "int option"

text \<open>
  Modelled from the spec: \<open>SignJWT\<close> and \<open>jwtVerify\<close> belong to the library \<open>jose\<close>,
  which is not among the sources. The spec says of them: a signed token embeds the
  claim body, an issued-at timestamp and an expiry timestamp under a named algorithm
  (HMAC-SHA256); verification parses the token and checks the signature and the
  expiry, returns the claim on success, and fails on a malformed token, a bad
  signature or an expired token; a token verified before its expiry is accepted and
  one verified after its expiry is not. The keyed hash and the token's textual form
  are parameters (\<open>hmac\<close>, \<open>serialize\<close>, \<open>parse\<close>). The spec does not say what
  verification does exactly at the expiry timestamp: that is the parameter
  \<open>valid_at_expiry\<close>. Timestamps are in seconds.
\<close>

record jws =
  alg :: string
  payload :: TokenPayload
  signature :: string

text \<open>
  Modelled from the spec: what the model leaves open about the library, namely the
  keyed hash (HMAC-SHA256 for \<open>HS256\<close>), the textual form of a token and its parser,
  and whether a token is still valid exactly at its expiry timestamp.
\<close>

record jose =
  hmac :: "string \<Rightarrow> string \<times> TokenPayload \<Rightarrow> string"
  serialize :: "jws \<Rightarrow> string"
  parse :: "string \<Rightarrow> jws option"
  valid_at_expiry :: bool

text \<open>
  Modelled from the spec: the three failures of verification it names, a malformed
  token, a bad signature and an expired token, under the library's names for them.
\<close>

datatype jose_error = JWSInvalid | JWSSignatureVerificationFailed | JWTExpired

text \<open>
  Modelled from the spec: the builder \<open>new SignJWT(payload)\<close> of the library and its
  setters. It holds the claim body, the algorithm of the protected header, and the
  issued-at and expiry timestamps; \<open>setIssuedAt()\<close> takes the current time,
  \<open>setExpirationTime(span)\<close> the current time plus the span.
\<close>

record SignJWT =
  body :: claim
  protectedHeader :: "string option"
  issuedAt :: "int option"
  expirationTime :: "int option"

text \<open>Modelled from the spec: \<open>new SignJWT(payload)\<close>, nothing set yet.\<close>

definition new_SignJWT :: "claim \<Rightarrow> SignJWT" where
  "new_SignJWT c =
     \<lparr>body = c, protectedHeader = None, issuedAt = None, expirationTime = None\<rparr>"

text \<open>Modelled from the spec: \<open>setProtectedHeader({alg})\<close> names the algorithm.\<close>

definition setProtectedHeader :: "string \<Rightarrow> SignJWT \<Rightarrow> SignJWT" where
  "setProtectedHeader a b = b\<lparr>protectedHeader := Some a\<rparr>"

text \<open>Modelled from the spec: \<open>setIssuedAt()\<close> embeds the current time \<open>now\<close>.\<close>

definition setIssuedAt :: "int \<Rightarrow> SignJWT \<Rightarrow> SignJWT" where
  "setIssuedAt now b = b\<lparr>issuedAt := Some now\<rparr>"

text \<open>
  Modelled from the spec: \<open>setExpirationTime(span)\<close> embeds the current time plus the
  span, the span given in seconds.
\<close>

definition setExpirationTime :: "int \<Rightarrow> int \<Rightarrow> SignJWT \<Rightarrow> SignJWT" where
  "setExpirationTime now span b = b\<lparr>expirationTime := Some (now + span)\<rparr>"

text \<open>
  Modelled from the spec: \<open>sign(key)\<close> of the library's builder. The signed token
  embeds the claim body with the two timestamps, under the algorithm of the protected
  header, with the keyed hash of both as its signature; without an algorithm there is
  nothing to sign with.
\<close>

definition sign :: "jose \<Rightarrow> SignJWT \<Rightarrow> string \<Rightarrow> jose_error + string" where
  "sign J b key =
     (case protectedHeader b of
        None \<Rightarrow> Inl JWSInvalid
      | Some a \<Rightarrow>
          (let p = claim.extend (body b) \<lparr>iat = issuedAt b, exp = expirationTime b\<rparr>
           in Inr (serialize J \<lparr>alg = a, payload = p, signature = hmac J key (a, p)\<rparr>)))"

text \<open>
  Modelled from the spec: \<open>jwtVerify(token, key)\<close> of the library, called at time
  \<open>now\<close>. It parses the token, checks the signature, then the expiry, and returns the
  payload; each failed check raises.
\<close>

definition jwtVerify :: "jose \<Rightarrow> int \<Rightarrow> string \<Rightarrow> string \<Rightarrow> jose_error + TokenPayload" where
  "jwtVerify J now token key =
     (case parse J token of
        None \<Rightarrow> Inl JWSInvalid
      | Some j \<Rightarrow>
          if signature j \<noteq> hmac J key (alg j, payload j) then
            Inl JWSSignatureVerificationFailed
          else
            (case exp (payload j) of
               None \<Rightarrow> Inr (payload j)
             | Some x \<Rightarrow>
                 if x < now \<or> (x = now \<and> \<not> valid_at_expiry J) then Inl JWTExpired
                 else Inr (payload j)))"

text \<open>
  \<open>generateToken\<close>, issued at time \<open>now\<close> (seconds): algorithm \<open>HS256\<close>, issued-at
  \<open>now\<close>, expiration \<open>'24h'\<close> after \<open>now\<close>, signed with \<open>secret\<close>.
\<close>

definition generateToken ::
  "jose \<Rightarrow> string option \<Rightarrow> int \<Rightarrow> claim \<Rightarrow> jose_error + string" where
  "generateToken J JWT_SECRET now c =
     sign J
       (setExpirationTime now (24 * 60 * 60)
          (setIssuedAt now (setProtectedHeader ''HS256'' (new_SignJWT c))))
       (secret JWT_SECRET)"

section \<open>Auxiliary definitions for the statements\<close>


text \<open>A request whose only header is \<open>X-Forwarded-For\<close>.\<close>

definition client :: "string \<Rightarrow> NextRequest" where
  "client ip = \<lparr>headers = [''x-forwarded-for'' \<mapsto> ip]\<rparr>"

text \<open>
  A stand-in for \<open>jwtVerify\<close> that accepts the token \<open>good\<close> and raises one of three
  different errors on every other token.
\<close>

definition toy_verify :: "string \<Rightarrow> string \<Rightarrow> jose_error + nat" where
  "toy_verify token key =
     (if token = ''good'' then Inr 7
      else if token = ''expired'' then Inl JWTExpired
      else if token = ''forged'' then Inl JWSSignatureVerificationFailed
      else Inl JWSInvalid)"

text \<open>
  An instance of the library's parameters for the scenario of the spec: the claim
  \<open>{u1, Admin, a@b.com}\<close> issued at time 0 under the fallback secret, the token that
  carries it, and a textual form that tells that token from every other one.
\<close>

definition admin :: claim where
  "admin = \<lparr>userId = ''u1'', username = ''Admin'', email = ''a@b.com''\<rparr>"

definition admin_jws :: jws where
  "admin_jws =
     \<lparr>alg = ''HS256'',
      payload = claim.extend admin \<lparr>iat = Some 0, exp = Some 86400\<rparr>,
      signature = ''your-secret-key-change-in-production'' @ ''HS256''\<rparr>"

definition toy_jose :: jose where
  "toy_jose =
     \<lparr>hmac = (\<lambda>key m. key @ fst m),
      serialize = (\<lambda>j. if j = admin_jws then ''admin-token'' else ''other-token''),
      parse = (\<lambda>s. if s = ''admin-token'' then Some admin_jws else None),
      valid_at_expiry = False\<rparr>"

section \<open>Facts about the helpers\<close>

lemma split_not_Nil: "split sep s \<noteq> []"
  by (induction s) (auto split: list.splits)

lemma split_first: "split sep s = x # xs \<Longrightarrow> x = takeWhile (\<lambda>c. c \<noteq> sep) s"
  using split_not_Nil [of sep]
  by (induction s arbitrary: x xs) (auto split: list.splits if_splits)

lemma startsWith_iff: "startsWith s p \<longleftrightarrow> (\<exists>rest. s = p @ rest)"
  unfolding startsWith_def
  by (metis append_eq_conv_conj append_take_drop_id)

lemma getClientIdentifier_returns: "\<exists>k. getClientIdentifier request = Inr k"
  using split_not_Nil
  by (auto simp: getClientIdentifier_def Let_def split: list.splits)

lemma client_key: "getClientIdentifier (client ''1.2.3.4'') = Inr ''1.2.3.4''"
  by (simp add: getClientIdentifier_def client_def trim_def is_ws_def)

lemma client_key_constructor:
  "getClientIdentifier (client ''constructor'') = Inr ''constructor''"
  by (simp add: getClientIdentifier_def client_def trim_def is_ws_def)

section \<open>The three paths of the rate limiter\<close>

text \<open>No usable entry: the lookup is \<open>undefined\<close>, or the stored window has ended.\<close>

lemma checkRateLimit_fresh:
  assumes "getClientIdentifier request = Inr k"
    and "lookup store k = Undefined \<or> (\<exists>e. store k = Some e \<and> resetAt e < now)"
  shows "checkRateLimit request config now store =
     Inr (\<lparr>allowed = True, remaining = maxRequests config - 1,
            resetAt' = Some (now + windowSeconds config * 1000), error = None\<rparr>,
          store(k \<mapsto> \<lparr>count = 1, resetAt = now + windowSeconds config * 1000\<rparr>))"
  using assms
  by (auto simp: checkRateLimit_def lookup_def Let_def split: option.splits if_splits)


text \<open>No stored entry, and the key names a member of \<open>Object.prototype\<close>.\<close>

lemma checkRateLimit_inherited:
  assumes "getClientIdentifier request = Inr k"
    and "store k = None" and "k \<in> set Object_prototype_names"
  shows "checkRateLimit request config now store =
     Inr (\<lparr>allowed = False, remaining = 0, resetAt' = None,
            error = Some (or_else (message config)
                      ''Too many requests. Please try again later.'')\<rparr>, store)"
  using assms by (auto simp: checkRateLimit_def lookup_def Let_def)


text \<open>
  The limiter never stores an entry under the name of an inherited member: for such a
  key the lookup is never \<open>undefined\<close>, and only the paths after an \<open>undefined\<close> or an
  own entry write to the store.
\<close>

lemma inherited_names_never_stored:
  assumes "\<forall>n \<in> set Object_prototype_names. store n = None"
    and "checkRateLimit request config now store = Inr (d, store')"
  shows "\<forall>n \<in> set Object_prototype_names. store' n = None"
proof -
  obtain k where k: "getClientIdentifier request = Inr k"
    using getClientIdentifier_returns by blast
  show ?thesis
  proof (cases "k \<in> set Object_prototype_names")
    case True
    then have "store k = None" using assms(1) by blast
    then have "store' = store"
      using checkRateLimit_inherited [OF k _ True, of store config now] assms(2) by simp
    then show ?thesis using assms(1) by simp
  next
    case False
    have "\<exists>e. store' = store(k \<mapsto> e)"
      using assms(2) k False
      by (auto simp: checkRateLimit_def Let_def lookup_def
          split: slot.splits if_splits option.splits)
    then show ?thesis using assms(1) False by auto
  qed
qed

text \<open>
  A clean-up that ran at some time up to \<open>now\<close> does not change the decision taken at
  \<open>now\<close>: the entries it deletes are those the call would have replaced anyway.
\<close>

lemma sweep_keeps_decision:
  assumes "getClientIdentifier request = Inr k"
    and "k \<notin> set Object_prototype_names"
    and "\<tau> \<le> now"
  shows "map_sum id fst (checkRateLimit request config now (sweep \<tau> store)) =
         map_sum id fst (checkRateLimit request config now store)"
proof (cases "store k")
  case None
  then show ?thesis
    using assms by (simp add: checkRateLimit_def Let_def lookup_def sweep_def)
next
  case (Some e)
  then show ?thesis
    using assms by (auto simp: checkRateLimit_def Let_def lookup_def sweep_def)
qed

text \<open>
  One entry per client, whatever the configuration, also means that the window a call
  under \<open>publicRead\<close> opens (60 seconds) is the window in which later \<open>login\<close> calls
  are counted. Client \<open>1.2.3.4\<close> reads a public page, makes four login calls, and
  does the same again a minute later: all eight login calls, within 61 seconds, are
  allowed, under a configuration of 5 requests in 300 seconds.
\<close>

lemma login_limit_not_enforced:
  "checkRateLimit (client ''1.2.3.4'') publicRead 0 Map.empty =
     Inr (\<lparr>allowed = True, remaining = 199, resetAt' = Some 60000, error = None\<rparr>,
          [''1.2.3.4'' \<mapsto> \<lparr>count = 1, resetAt = 60000\<rparr>])
   \<and> requests (client ''1.2.3.4'') login [1, 2, 3, 4]
        [''1.2.3.4'' \<mapsto> \<lparr>count = 1, resetAt = 60000\<rparr>] =
     Inr ([\<lparr>allowed = True, remaining = 3, resetAt' = Some 60000, error = None\<rparr>,
           \<lparr>allowed = True, remaining = 2, resetAt' = Some 60000, error = None\<rparr>,
           \<lparr>allowed = True, remaining = 1, resetAt' = Some 60000, error = None\<rparr>,
           \<lparr>allowed = True, remaining = 0, resetAt' = Some 60000, error = None\<rparr>],
          [''1.2.3.4'' \<mapsto> \<lparr>count = 5, resetAt = 60000\<rparr>])
   \<and> checkRateLimit (client ''1.2.3.4'') publicRead 60001
        [''1.2.3.4'' \<mapsto> \<lparr>count = 5, resetAt = 60000\<rparr>] =
     Inr (\<lparr>allowed = True, remaining = 199, resetAt' = Some 120001, error = None\<rparr>,
          [''1.2.3.4'' \<mapsto> \<lparr>count = 1, resetAt = 120001\<rparr>])
   \<and> requests (client ''1.2.3.4'') login [60002, 60003, 60004, 60005]
        [''1.2.3.4'' \<mapsto> \<lparr>count = 1, resetAt = 120001\<rparr>] =
     Inr ([\<lparr>allowed = True, remaining = 3, resetAt' = Some 120001, error = None\<rparr>,
           \<lparr>allowed = True, remaining = 2, resetAt' = Some 120001, error = None\<rparr>,
           \<lparr>allowed = True, remaining = 1, resetAt' = Some 120001, error = None\<rparr>,
           \<lparr>allowed = True, remaining = 0, resetAt' = Some 120001, error = None\<rparr>],
          [''1.2.3.4'' \<mapsto> \<lparr>count = 5, resetAt = 120001\<rparr>])"
  by (simp add: checkRateLimit_def lookup_def Object_prototype_names_def publicRead_def
      login_def or_else_def client_key)

section \<open>Claims about the rate limiter\<close>

text \<open>
  C1. The spec has every named limiter keep its own counters for a client. The store
  is keyed by the client identifier alone, and \<open>checkRateLimit\<close> never looks at which
  configuration it was called with when it reads the entry. Evaluated on the client
  \<open>1.2.3.4\<close>: five calls under \<open>api\<close> (limit 100) leave the entry with count 5 and a
  window of 60 seconds; the client's first call under \<open>login\<close> (limit 5), one second
  later, reads that entry, raises its count to 6 and is refused with the login message,
  the window still being the one \<open>api\<close> opened. On a store without the \<open>api\<close> traffic
  the same \<open>login\<close> call is allowed with 4 remaining and a window of 300 seconds.
\<close>

theorem limiters_share_one_entry:
  "requests (client ''1.2.3.4'') api [0, 1, 2, 3, 4] Map.empty =
     Inr ([\<lparr>allowed = True, remaining = 99, resetAt' = Some 60000, error = None\<rparr>,
           \<lparr>allowed = True, remaining = 98, resetAt' = Some 60000, error = None\<rparr>,
           \<lparr>allowed = True, remaining = 97, resetAt' = Some 60000, error = None\<rparr>,
           \<lparr>allowed = True, remaining = 96, resetAt' = Some 60000, error = None\<rparr>,
           \<lparr>allowed = True, remaining = 95, resetAt' = Some 60000, error = None\<rparr>],
          [''1.2.3.4'' \<mapsto> \<lparr>count = 5, resetAt = 60000\<rparr>])
   \<and> checkRateLimit (client ''1.2.3.4'') login 1000
        [''1.2.3.4'' \<mapsto> \<lparr>count = 5, resetAt = 60000\<rparr>] =
     Inr (\<lparr>allowed = False, remaining = 0, resetAt' = Some 60000,
            error = Some ''Too many login attempts. Please try again in 5 minutes.''\<rparr>,
          [''1.2.3.4'' \<mapsto> \<lparr>count = 6, resetAt = 60000\<rparr>])
   \<and> checkRateLimit (client ''1.2.3.4'') login 1000 Map.empty =
     Inr (\<lparr>allowed = True, remaining = 4, resetAt' = Some 301000, error = None\<rparr>,
          [''1.2.3.4'' \<mapsto> \<lparr>count = 1, resetAt = 301000\<rparr>])"
  by (simp add: checkRateLimit_def lookup_def Object_prototype_names_def api_def login_def
      or_else_def client_key)




text \<open>
  C3. If the store holds an entry for the client key whose \<open>resetAt\<close> is before \<open>now\<close>,
  the call puts \<open>{count: 1, resetAt: now + window}\<close> in its place and returns
  \<open>allowed = true\<close> with \<open>remaining = maxRequests - 1\<close>, whatever the old count was.
  Timestamps are milliseconds, so the window of \<open>windowSeconds\<close> seconds is
  \<open>windowSeconds * 1000\<close>.
\<close>

theorem expired_entry_is_replaced:
  assumes "getClientIdentifier request = Inr k"
    and "store k = Some e"
    and "resetAt e < now"
  shows "checkRateLimit request config now store =
     Inr (\<lparr>allowed = True, remaining = maxRequests config - 1,
            resetAt' = Some (now + windowSeconds config * 1000), error = None\<rparr>,
          store(k \<mapsto> \<lparr>count = 1, resetAt = now + windowSeconds config * 1000\<rparr>))"
  using assms by (intro checkRateLimit_fresh) auto

text \<open>
  The seventh request of the spec's scenario: the entry stands at count 6 with its
  window ended at 300 s, and the request arrives at 301 s.
\<close>

theorem expired_entry_is_replaced_witness:
  "checkRateLimit (client ''1.2.3.4'') login 301000
       [''1.2.3.4'' \<mapsto> \<lparr>count = 6, resetAt = 300000\<rparr>] =
     Inr (\<lparr>allowed = True, remaining = 4, resetAt' = Some 601000, error = None\<rparr>,
          [''1.2.3.4'' \<mapsto> \<lparr>count = 1, resetAt = 601000\<rparr>])"
  using expired_entry_is_replaced [of "client ''1.2.3.4''" "''1.2.3.4''"
      "[''1.2.3.4'' \<mapsto> \<lparr>count = 6, resetAt = 300000\<rparr>]" "\<lparr>count = 6, resetAt = 300000\<rparr>"
      301000 login]
  by (simp add: login_def client_key)

text \<open>
  C4, as amended. The client key is: the first comma-separated segment of
  \<open>X-Forwarded-For\<close>, trimmed, if that header is present and not empty; otherwise the
  value of \<open>X-Real-IP\<close> if that header is present and not empty; otherwise the value of
  \<open>User-Agent\<close> if that header is present and not empty; otherwise \<open>unknown\<close>. The
  call always returns a key.
\<close>

theorem getClientIdentifier_priority:
  "getClientIdentifier request =
     Inr (case headers request ''x-forwarded-for'' of
            Some (c # cs) \<Rightarrow> trim (takeWhile (\<lambda>x. x \<noteq> CHR '','') (c # cs))
          | _ \<Rightarrow>
            (case headers request ''x-real-ip'' of
               Some (c # cs) \<Rightarrow> c # cs
             | _ \<Rightarrow>
               (case headers request ''user-agent'' of
                  Some (c # cs) \<Rightarrow> c # cs
                | _ \<Rightarrow> ''unknown'')))"
proof -
  have first: "(case split CHR '','' v of [] \<Rightarrow> Inl TypeError | x # _ \<Rightarrow> Inr (trim x)) =
      Inr (trim (takeWhile (\<lambda>x. x \<noteq> CHR '','') v))" for v
    using split_not_Nil [of "CHR '',''" v] split_first [of "CHR '',''" v]
    by (cases "split CHR '','' v") auto
  show ?thesis
    unfolding getClientIdentifier_def Let_def
    by (simp add: first or_else_def split: option.splits list.splits)
qed

text \<open>One request for each of the four cases.\<close>

theorem getClientIdentifier_priority_witness:
  "getClientIdentifier \<lparr>headers = [''x-forwarded-for'' \<mapsto> '' 1.2.3.4 , 10.0.0.7'',
      ''x-real-ip'' \<mapsto> ''10.0.0.7'', ''user-agent'' \<mapsto> ''curl/8.0'']\<rparr> = Inr ''1.2.3.4''
   \<and> getClientIdentifier \<lparr>headers = [''x-real-ip'' \<mapsto> ''10.0.0.7'',
      ''user-agent'' \<mapsto> ''curl/8.0'']\<rparr> = Inr ''10.0.0.7''
   \<and> getClientIdentifier \<lparr>headers = [''user-agent'' \<mapsto> ''curl/8.0'']\<rparr> = Inr ''curl/8.0''
   \<and> getClientIdentifier \<lparr>headers = Map.empty\<rparr> = Inr ''unknown''"
  using getClientIdentifier_priority
      [of "\<lparr>headers = [''x-forwarded-for'' \<mapsto> '' 1.2.3.4 , 10.0.0.7'',
        ''x-real-ip'' \<mapsto> ''10.0.0.7'', ''user-agent'' \<mapsto> ''curl/8.0'']\<rparr>"]
    getClientIdentifier_priority
      [of "\<lparr>headers = [''x-real-ip'' \<mapsto> ''10.0.0.7'', ''user-agent'' \<mapsto> ''curl/8.0'']\<rparr>"]
    getClientIdentifier_priority [of "\<lparr>headers = [''user-agent'' \<mapsto> ''curl/8.0'']\<rparr>"]
    getClientIdentifier_priority [of "\<lparr>headers = Map.empty\<rparr>"]
  by (simp add: trim_def is_ws_def)

text \<open>
  Where the statement fails without the amendment: a header that is present with an
  empty value is passed over. By the unamended statement each of these three keys
  would be the empty string.
\<close>

theorem getClientIdentifier_priority_counterexample:
  "getClientIdentifier
       \<lparr>headers = [''x-forwarded-for'' \<mapsto> [], ''x-real-ip'' \<mapsto> ''10.0.0.7'']\<rparr>
     = Inr ''10.0.0.7''
   \<and> getClientIdentifier
       \<lparr>headers = [''x-real-ip'' \<mapsto> [], ''user-agent'' \<mapsto> ''curl/8.0'']\<rparr>
     = Inr ''curl/8.0''
   \<and> getClientIdentifier \<lparr>headers = [''user-agent'' \<mapsto> []]\<rparr> = Inr ''unknown''"
  by (simp add: getClientIdentifier_def or_else_def)

text \<open>
  \<open>checkRateLimit\<close> raises on no request, configuration, time or store: it always
  returns a decision (and the store it leaves), with an error message exactly when the
  request is refused. The decision carries a \<open>resetAt\<close> timestamp unless the lookup of
  the client key is an inherited member, and then it carries none.
\<close>

lemma checkRateLimit_never_raises:
  "\<exists>d store'. checkRateLimit request config now store = Inr (d, store')"
proof -
  obtain k where "getClientIdentifier request = Inr k"
    using getClientIdentifier_returns by blast
  then show ?thesis
    by (cases "lookup store k") (auto simp: checkRateLimit_def Let_def)
qed

lemma checkRateLimit_decision_fields:
  assumes "getClientIdentifier request = Inr k"
    and "checkRateLimit request config now store = Inr (d, store')"
  shows "(allowed d \<longleftrightarrow> error d = None)
     \<and> (lookup store k \<noteq> Inherited \<longrightarrow> (\<exists>r. resetAt' d = Some r))
     \<and> (lookup store k = Inherited \<longrightarrow> resetAt' d = None)"
  using assms
  by (cases "lookup store k") (auto simp: checkRateLimit_def Let_def split: if_splits)

text \<open>
  C9. The claim has \<open>checkRateLimit\<close> return, for every request and configuration, a
  decision with the fields \<open>allowed\<close>, \<open>remaining\<close> and \<open>resetAt\<close>, and the declared
  return type has \<open>resetAt: number\<close>. Evaluated on an empty store under \<open>login\<close> at
  time 0: for the client key \<open>constructor\<close> the call does return, without raising, but
  the decision it returns has no \<open>resetAt\<close> (it is \<open>undefined\<close>); for the client key
  \<open>1.2.3.4\<close> the decision has all three fields.
\<close>

theorem decision_without_resetAt:
  "checkRateLimit (client ''constructor'') login 0 Map.empty =
     Inr (\<lparr>allowed = False, remaining = 0, resetAt' = None,
            error = Some ''Too many login attempts. Please try again in 5 minutes.''\<rparr>,
          Map.empty)
   \<and> checkRateLimit (client ''1.2.3.4'') login 0 Map.empty =
     Inr (\<lparr>allowed = True, remaining = 4, resetAt' = Some 300000, error = None\<rparr>,
          [''1.2.3.4'' \<mapsto> \<lparr>count = 1, resetAt = 300000\<rparr>])"
  by (simp add: checkRateLimit_def lookup_def Object_prototype_names_def login_def
      or_else_def client_key client_key_constructor)

text \<open>
  C10. The claim has every client key without a live entry allowed, also under
  \<open>maxRequests = 0\<close>, with \<open>remaining = maxRequests - 1\<close>. Evaluated on an empty store
  with \<open>maxRequests = 0\<close>: for the client key \<open>constructor\<close> the lookup finds the member
  inherited from \<open>Object.prototype\<close>, the call is refused with \<open>remaining = 0\<close> and no
  \<open>resetAt\<close>, and nothing is stored; for the client key \<open>1.2.3.4\<close> the call is allowed
  with \<open>remaining = -1\<close>, as the claim says.
\<close>

theorem inherited_key_is_refused:
  "checkRateLimit (client ''constructor'')
       \<lparr>maxRequests = 0, windowSeconds = 60, message = None\<rparr> 0 Map.empty =
     Inr (\<lparr>allowed = False, remaining = 0, resetAt' = None,
            error = Some ''Too many requests. Please try again later.''\<rparr>, Map.empty)
   \<and> checkRateLimit (client ''1.2.3.4'')
       \<lparr>maxRequests = 0, windowSeconds = 60, message = None\<rparr> 0 Map.empty =
     Inr (\<lparr>allowed = True, remaining = - 1, resetAt' = Some 60000, error = None\<rparr>,
          [''1.2.3.4'' \<mapsto> \<lparr>count = 1, resetAt = 60000\<rparr>])"
  by (simp add: checkRateLimit_def lookup_def Object_prototype_names_def or_else_def
      client_key client_key_constructor)

section \<open>Claims about the token service\<close>

lemma verifyToken_fulfils:
  "\<exists>r. verifyToken verify JWT_SECRET token trace = (Inr r, trace @ [token])"
  by (cases "verify token (secret JWT_SECRET)") (simp_all add: verifyToken_def)

lemma getTokenFromRequest_fulfils:
  "\<exists>r trace'. getTokenFromRequest verify JWT_SECRET request trace = (Inr r, trace')"
proof (cases "headers request ''authorization'' = None
    \<or> headers request ''authorization'' = Some []
    \<or> \<not> startsWith (the (headers request ''authorization'')) ''Bearer ''")
  case True
  then show ?thesis by (simp add: getTokenFromRequest_def Let_def)
next
  case False
  then have "getTokenFromRequest verify JWT_SECRET request trace =
      verifyToken verify JWT_SECRET
        (substring (the (headers request ''authorization'')) 7) trace"
    by (auto simp: getTokenFromRequest_def Let_def)
  then show ?thesis
    using verifyToken_fulfils
      [of verify JWT_SECRET "substring (the (headers request ''authorization'')) 7" trace]
    by auto
qed

text \<open>
  On the modelled library each of the three failures (the token does not parse, its
  signature is not the keyed hash of its content, its expiry is before the time of
  verification) ends in the same result of \<open>verifyToken\<close>.
\<close>

lemma verifyToken_no_claim_on_each_failure:
  "parse J token = None \<Longrightarrow>
     verifyToken (jwtVerify J t) JWT_SECRET token trace = (Inr None, trace @ [token])"
  "parse J token = Some j \<Longrightarrow> signature j \<noteq> hmac J (secret JWT_SECRET) (alg j, payload j) \<Longrightarrow>
     verifyToken (jwtVerify J t) JWT_SECRET token trace = (Inr None, trace @ [token])"
  "parse J token = Some j \<Longrightarrow> exp (payload j) = Some x \<Longrightarrow> x < t \<Longrightarrow>
     verifyToken (jwtVerify J t) JWT_SECRET token trace = (Inr None, trace @ [token])"
  by (simp_all add: verifyToken_def jwtVerify_def)

text \<open>
  C5. Whatever error the library's verification raises on a token (the token being
  malformed, its signature not matching, or it having expired), \<open>verifyToken\<close> itself
  raises nothing and returns \<open>null\<close>: the result does not depend on the error, so the
  caller cannot tell the causes apart.
\<close>

theorem verifyToken_erases_failure:
  assumes "verify token (secret JWT_SECRET) = Inl e"
  shows "verifyToken verify JWT_SECRET token trace = (Inr None, trace @ [token])"
  using assms by (simp add: verifyToken_def)

text \<open>A token on which verification raises for a bad signature.\<close>

theorem verifyToken_erases_failure_witness:
  "toy_verify ''forged'' (secret None) = Inl JWSSignatureVerificationFailed
   \<and> verifyToken toy_verify None ''forged'' [] = (Inr None, [''forged''])"
  using verifyToken_erases_failure
      [of toy_verify "''forged''" None JWSSignatureVerificationFailed "[]"]
  by (simp add: toy_verify_def)

text \<open>
  C6. If the \<open>Authorization\<close> header is absent, or present without beginning with the
  seven characters \<open>Bearer \<close> (capital B, one space), \<open>getTokenFromRequest\<close> returns
  \<open>null\<close> and the trace of verification calls is unchanged: verification is not
  invoked. If the header is \<open>Bearer \<close> followed by \<open>rest\<close>, the result is that of
  \<open>verifyToken\<close> on exactly \<open>rest\<close>.
\<close>

theorem getTokenFromRequest_bearer:
  "(headers request ''authorization'' = None
      \<or> (\<exists>h. headers request ''authorization'' = Some h
             \<and> (\<forall>rest. h \<noteq> ''Bearer '' @ rest))
     \<longrightarrow> getTokenFromRequest verify JWT_SECRET request trace = (Inr None, trace))
   \<and> (\<forall>rest. headers request ''authorization'' = Some (''Bearer '' @ rest)
     \<longrightarrow> getTokenFromRequest verify JWT_SECRET request trace =
           verifyToken verify JWT_SECRET rest trace)"
proof (intro conjI impI allI)
  assume "headers request ''authorization'' = None
      \<or> (\<exists>h. headers request ''authorization'' = Some h
             \<and> (\<forall>rest. h \<noteq> ''Bearer '' @ rest))"
  then show "getTokenFromRequest verify JWT_SECRET request trace = (Inr None, trace)"
    by (auto simp: getTokenFromRequest_def Let_def startsWith_iff)
next
  fix rest
  assume h: "headers request ''authorization'' = Some (''Bearer '' @ rest)"
  have "startsWith (''Bearer '' @ rest) ''Bearer ''"
    unfolding startsWith_iff by blast
  moreover have "substring (''Bearer '' @ rest) 7 = rest"
    by (simp add: substring_def)
  ultimately show "getTokenFromRequest verify JWT_SECRET request trace =
           verifyToken verify JWT_SECRET rest trace"
    using h by (simp add: getTokenFromRequest_def Let_def)
qed

text \<open>
  A header with a lower-case \<open>bearer\<close>, whose token would verify, and the same token
  under the exact prefix.
\<close>

theorem getTokenFromRequest_bearer_witness:
  "getTokenFromRequest toy_verify None
      \<lparr>headers = [''authorization'' \<mapsto> ''bearer good'']\<rparr> [] = (Inr None, [])
   \<and> getTokenFromRequest toy_verify None
      \<lparr>headers = [''authorization'' \<mapsto> ''Bearer good'']\<rparr> [] = (Inr (Some 7), [''good''])"
  using getTokenFromRequest_bearer
      [of "\<lparr>headers = [''authorization'' \<mapsto> ''bearer good'']\<rparr>" toy_verify None "[]"]
    getTokenFromRequest_bearer
      [of "\<lparr>headers = [''authorization'' \<mapsto> ''Bearer good'']\<rparr>" toy_verify None "[]"]
  by (simp add: verifyToken_def toy_verify_def)

text \<open>
  C7. \<open>requireAuth\<close> always returns a result. When \<open>getTokenFromRequest\<close> yields no
  claim the result is \<open>{authorized: false, error: 'Unauthorized - Invalid or missing
  token'}\<close>, when it yields the claim \<open>u\<close> the result is \<open>{authorized: true, user: u}\<close>,
  and \<open>authorized\<close> is false exactly in the first case.
\<close>

theorem requireAuth_result:
  "\<exists>r trace'. requireAuth verify JWT_SECRET request trace = (Inr r, trace')
     \<and> (fst (getTokenFromRequest verify JWT_SECRET request trace) = Inr None \<longrightarrow>
          r = \<lparr>authorized = False, user = None,
                error' = Some ''Unauthorized - Invalid or missing token''\<rparr>)
     \<and> (\<forall>u. fst (getTokenFromRequest verify JWT_SECRET request trace) = Inr (Some u) \<longrightarrow>
          r = \<lparr>authorized = True, user = Some u, error' = None\<rparr>)
     \<and> (authorized r \<longleftrightarrow>
          fst (getTokenFromRequest verify JWT_SECRET request trace) \<noteq> Inr None)"
proof -
  obtain c trace'
    where g: "getTokenFromRequest verify JWT_SECRET request trace = (Inr c, trace')"
    using getTokenFromRequest_fulfils by blast
  show ?thesis
    by (cases c) (simp_all add: requireAuth_def g)
qed

text \<open>A request without the header, and one with a token that verifies.\<close>

theorem requireAuth_result_witness:
  "requireAuth toy_verify None \<lparr>headers = Map.empty\<rparr> [] =
     (Inr \<lparr>authorized = False, user = None,
           error' = Some ''Unauthorized - Invalid or missing token''\<rparr>, [])
   \<and> requireAuth toy_verify None
      \<lparr>headers = [''authorization'' \<mapsto> ''Bearer good'']\<rparr> [] =
     (Inr \<lparr>authorized = True, user = Some 7, error' = None\<rparr>, [''good''])"
  using requireAuth_result [of toy_verify None "\<lparr>headers = Map.empty\<rparr>" "[]"]
    requireAuth_result
      [of toy_verify None "\<lparr>headers = [''authorization'' \<mapsto> ''Bearer good'']\<rparr>" "[]"]
  by (simp add: requireAuth_def getTokenFromRequest_def verifyToken_def startsWith_def
      substring_def toy_verify_def)

lemma generateToken_eq:
  "generateToken J JWT_SECRET now c =
     Inr (serialize J
       \<lparr>alg = ''HS256'',
        payload = claim.extend c \<lparr>iat = Some now, exp = Some (now + 86400)\<rparr>,
        signature = hmac J (secret JWT_SECRET)
          (''HS256'', claim.extend c \<lparr>iat = Some now, exp = Some (now + 86400)\<rparr>)\<rparr>)"
  by (simp add: generateToken_def sign_def setExpirationTime_def setIssuedAt_def
      setProtectedHeader_def new_SignJWT_def Let_def)

text \<open>
  C8. \<open>generateToken\<close>, called at time \<open>now\<close> (seconds) on the claim \<open>c\<close>, returns a
  token. Provided the token reads back as what was written into it, \<open>verifyToken\<close> at
  any time \<open>t\<close> from \<open>now\<close> to before \<open>now\<close> + 24 hours returns a claim with the
  \<open>userId\<close>, \<open>username\<close> and \<open>email\<close> of \<open>c\<close>, issued-at \<open>now\<close> and expiry \<open>now\<close> +
  86400, with issued-at \<open>\<le> t \<le>\<close> expiry; and at any time after the expiry it returns
  \<open>null\<close>. This holds for either behaviour of the library exactly at the expiry.
\<close>

theorem token_round_trip:
  "\<exists>token. generateToken J JWT_SECRET now c = Inr token
     \<and> ((\<forall>j. serialize J j = token \<longrightarrow> parse J token = Some j) \<longrightarrow>
          (\<forall>t trace. now \<le> t \<and> t < now + 86400 \<longrightarrow>
             (\<exists>p. verifyToken (jwtVerify J t) JWT_SECRET token trace =
                     (Inr (Some p), trace @ [token])
                \<and> userId p = userId c \<and> username p = username c \<and> email p = email c
                \<and> iat p = Some now \<and> exp p = Some (now + 86400)
                \<and> the (iat p) \<le> t \<and> t \<le> the (exp p)))
        \<and> (\<forall>t trace. now + 86400 < t \<longrightarrow>
             verifyToken (jwtVerify J t) JWT_SECRET token trace =
               (Inr None, trace @ [token])))"
proof -
  let ?p = "claim.extend c \<lparr>iat = Some now, exp = Some (now + 86400)\<rparr>"
  let ?j = "\<lparr>alg = ''HS256'', payload = ?p,
             signature = hmac J (secret JWT_SECRET) (''HS256'', ?p)\<rparr>"
  have gen: "generateToken J JWT_SECRET now c = Inr (serialize J ?j)"
    by (rule generateToken_eq)
  have fields: "userId ?p = userId c" "username ?p = username c" "email ?p = email c"
    "iat ?p = Some now" "exp ?p = Some (now + 86400)"
    by (simp_all add: claim.defs TokenPayload.defs)
  {
    assume "\<forall>j. serialize J j = serialize J ?j \<longrightarrow> parse J (serialize J ?j) = Some j"
    then have reads: "parse J (serialize J ?j) = Some ?j" by blast
    have live: "jwtVerify J t (serialize J ?j) (secret JWT_SECRET) = Inr ?p"
      if "t < now + 86400" for t
      using that reads fields by (simp add: jwtVerify_def)
    have dead: "jwtVerify J t (serialize J ?j) (secret JWT_SECRET) = Inl JWTExpired"
      if "now + 86400 < t" for t
      using that reads fields by (simp add: jwtVerify_def)
    have "(\<forall>t trace. now \<le> t \<and> t < now + 86400 \<longrightarrow>
             (\<exists>p. verifyToken (jwtVerify J t) JWT_SECRET (serialize J ?j) trace =
                    (Inr (Some p), trace @ [serialize J ?j])
                \<and> userId p = userId c \<and> username p = username c \<and> email p = email c
                \<and> iat p = Some now \<and> exp p = Some (now + 86400)
                \<and> the (iat p) \<le> t \<and> t \<le> the (exp p)))
        \<and> (\<forall>t trace. now + 86400 < t \<longrightarrow>
             verifyToken (jwtVerify J t) JWT_SECRET (serialize J ?j) trace =
               (Inr None, trace @ [serialize J ?j]))"
      using live dead fields by (auto simp: verifyToken_def)
  }
  then show ?thesis using gen by blast
qed

text \<open>
  The scenario of the spec: the claim \<open>{u1, Admin, a@b.com}\<close> issued at time 0,
  verified at 86399 s and at 86401 s.
\<close>

theorem token_round_trip_witness:
  "generateToken toy_jose None 0 admin = Inr ''admin-token''
   \<and> verifyToken (jwtVerify toy_jose 86399) None ''admin-token'' [] =
       (Inr (Some (claim.extend admin \<lparr>iat = Some 0, exp = Some 86400\<rparr>)), [''admin-token''])
   \<and> verifyToken (jwtVerify toy_jose 86401) None ''admin-token'' [] =
       (Inr None, [''admin-token''])"
proof -
  have gen: "generateToken toy_jose None 0 admin = Inr ''admin-token''"
    by (simp add: generateToken_def sign_def setExpirationTime_def setIssuedAt_def
        setProtectedHeader_def new_SignJWT_def Let_def toy_jose_def admin_jws_def
        secret_def or_else_def)
  have reads: "\<forall>j. serialize toy_jose j = ''admin-token''
      \<longrightarrow> parse toy_jose ''admin-token'' = Some j"
    by (simp add: toy_jose_def)
  from token_round_trip [of toy_jose None 0 admin] gen reads
  have live: "\<forall>t trace. 0 \<le> t \<and> t < 0 + 86400 \<longrightarrow>
             (\<exists>p. verifyToken (jwtVerify toy_jose t) None ''admin-token'' trace =
                     (Inr (Some p), trace @ [''admin-token''])
                \<and> userId p = userId admin \<and> username p = username admin
                \<and> email p = email admin
                \<and> iat p = Some 0 \<and> exp p = Some (0 + 86400)
                \<and> the (iat p) \<le> t \<and> t \<le> the (exp p))"
    and dead: "\<forall>t trace. 0 + 86400 < t \<longrightarrow>
             verifyToken (jwtVerify toy_jose t) None ''admin-token'' trace =
               (Inr None, trace @ [''admin-token''])"
    by auto
  have "0 \<le> (86399::int) \<and> (86399::int) < 0 + 86400" by simp
  with live obtain p where
    v: "verifyToken (jwtVerify toy_jose 86399) None ''admin-token'' [] =
          (Inr (Some p), [] @ [''admin-token''])"
    and p: "userId p = userId admin" "username p = username admin" "email p = email admin"
      "iat p = Some 0" "exp p = Some (0 + 86400)"
    by blast
  have "p = claim.extend admin \<lparr>iat = Some 0, exp = Some 86400\<rparr>"
    using p by (cases p) (simp add: claim.defs TokenPayload.defs admin_def)
  moreover have "verifyToken (jwtVerify toy_jose 86401) None ''admin-token'' [] =
       (Inr None, [] @ [''admin-token''])"
    using dead by simp
  ultimately show ?thesis using gen v by simp
qed

end
